theory Spec2Isabelle
  imports Complex_Main "HOL-Library.AList" "HOL-Library.Multiset"
begin

section \<open>Numbers, exceptions and the logger\<close>

text \<open>
  Python floats are modelled in exact arithmetic: a finite float is a real number, and the
  special values \<open>inf\<close>, \<open>-inf\<close> and \<open>nan\<close> are constructors of their own. Rounding and
  overflow to infinity are not modelled. The arguments of the valuation functions
  (carbon density, area, price, discount rate, the elements of an array) are finite numbers,
  hence of type \<open>real\<close>; the special values arise only inside the functions
  (\<open>float('inf')\<close>, and \<open>np.mean\<close> of an empty array, which is \<open>nan\<close>). Because
  rounding is left out, every result below is stated as the expression the code
  evaluates, in the code's order of operations, and never through an algebraic
  rearrangement of it.
\<close>

datatype pyfloat = Fin real | PosInf | NegInf | NaN

text \<open>
  The exceptions the modelled code raises itself, and \<open>LibraryError\<close> for any other
  exception a library call (rasterio, pandas, natcap.invest, os) may raise, tagged by its
  name. All of them are subclasses of Python's \<open>Exception\<close>.
\<close>

datatype exn = FileNotFoundError | ValueError | ZeroDivisionError | LibraryError string

text \<open>
  The module-level logger is the only state the functions share. A log is the list of
  entries emitted so far, oldest first. The text of an entry is its fixed part; the
  formatted numbers are left out.
\<close>

datatype level = INFO | WARNING | ERROR

type_synonym log = "(level \<times> string) list"

definition logger_info :: "string \<Rightarrow> log \<Rightarrow> log" where
  "logger_info msg lg = lg @ [(INFO, msg)]"

definition logger_warning :: "string \<Rightarrow> log \<Rightarrow> log" where
  "logger_warning msg lg = lg @ [(WARNING, msg)]"

definition logger_error :: "string \<Rightarrow> log \<Rightarrow> log" where
  "logger_error msg lg = lg @ [(ERROR, msg)]"

text \<open>Sequencing of fallible steps: the first exception ends the computation.\<close>

definition exn_bind :: "exn + 'a \<Rightarrow> ('a \<Rightarrow> exn + 'b) \<Rightarrow> exn + 'b" where
  "exn_bind m f = (case m of Inl e \<Rightarrow> Inl e | Inr x \<Rightarrow> f x)"

subsection \<open>Float arithmetic\<close>

text \<open>\<open>x * y\<close> on floats: IEEE rules for the special values, exact on finite ones.\<close>

fun fmul :: "pyfloat \<Rightarrow> pyfloat \<Rightarrow> pyfloat" where
  "fmul (Fin x) (Fin y) = Fin (x * y)"
| "fmul (Fin x) PosInf = (if x = 0 then NaN else if 0 < x then PosInf else NegInf)"
| "fmul (Fin x) NegInf = (if x = 0 then NaN else if 0 < x then NegInf else PosInf)"
| "fmul PosInf (Fin y) = (if y = 0 then NaN else if 0 < y then PosInf else NegInf)"
| "fmul NegInf (Fin y) = (if y = 0 then NaN else if 0 < y then NegInf else PosInf)"
| "fmul PosInf PosInf = PosInf"
| "fmul PosInf NegInf = NegInf"
| "fmul NegInf PosInf = NegInf"
| "fmul NegInf NegInf = PosInf"
| "fmul NaN _ = NaN"
| "fmul _ NaN = NaN"

text \<open>\<open>x - y\<close> on floats.\<close>

fun fsub :: "pyfloat \<Rightarrow> pyfloat \<Rightarrow> pyfloat" where
  "fsub (Fin x) (Fin y) = Fin (x - y)"
| "fsub (Fin x) PosInf = NegInf"
| "fsub (Fin x) NegInf = PosInf"
| "fsub PosInf (Fin y) = PosInf"
| "fsub NegInf (Fin y) = NegInf"
| "fsub PosInf PosInf = NaN"
| "fsub PosInf NegInf = PosInf"
| "fsub NegInf PosInf = NegInf"
| "fsub NegInf NegInf = NaN"
| "fsub NaN _ = NaN"
| "fsub _ NaN = NaN"

text \<open>The quotient of \<open>x / y\<close> for a divisor that is not zero.\<close>

fun fquot :: "pyfloat \<Rightarrow> pyfloat \<Rightarrow> pyfloat" where
  "fquot (Fin x) (Fin y) = Fin (x / y)"
| "fquot (Fin x) PosInf = Fin 0"
| "fquot (Fin x) NegInf = Fin 0"
| "fquot PosInf (Fin y) = (if 0 \<le> y then PosInf else NegInf)"
| "fquot NegInf (Fin y) = (if 0 \<le> y then NegInf else PosInf)"
| "fquot PosInf PosInf = NaN"
| "fquot PosInf NegInf = NaN"
| "fquot NegInf PosInf = NaN"
| "fquot NegInf NegInf = NaN"
| "fquot NaN _ = NaN"
| "fquot _ NaN = NaN"

text \<open>
  \<open>x / y\<close>: Python raises \<open>ZeroDivisionError\<close> on a zero divisor, whatever the dividend.
  (A numpy scalar would warn and return \<open>inf\<close> or \<open>nan\<close> instead; the model takes the
  stricter reading everywhere, so that every executed division by zero is visible as an
  exception.)
\<close>

definition truediv :: "pyfloat \<Rightarrow> pyfloat \<Rightarrow> exn + pyfloat" where
  "truediv x y = (if y = Fin 0 then Inl ZeroDivisionError else Inr (fquot x y))"

text \<open>\<open>x != 0\<close> on a float: \<open>nan\<close> differs from everything.\<close>

definition ne_zero :: "pyfloat \<Rightarrow> bool" where
  "ne_zero x = (x \<noteq> Fin 0)"

subsection \<open>numpy reductions on a one-dimensional array\<close>

definition np_sum :: "real list \<Rightarrow> real" where
  "np_sum xs = sum_list xs"

text \<open>\<open>np.mean\<close> of an empty array is \<open>nan\<close> (numpy warns and does not raise).\<close>

definition np_mean :: "real list \<Rightarrow> pyfloat" where
  "np_mean xs = (if xs = [] then NaN else Fin (sum_list xs / real (length xs)))"

section \<open>models/carbon.py: valuation\<close>

text \<open>
  The argument \<open>carbon_data\<close> is a float or a numpy array: a one-dimensional array
  (\<open>NDArray\<close>), or an array of two or more dimensions (\<open>NDArray2\<close>), given as the list
  of its sub-arrays along the first axis, each flattened in row-major order. \<open>len\<close> of an
  array is the length of its first axis, while \<open>np.sum\<close> and \<open>np.mean\<close> run over all its
  elements. Zero-dimensional arrays, on which \<open>len\<close> raises \<open>TypeError\<close>, are not
  modelled.
\<close>

datatype carbon_data = Scalar real | NDArray "real list" | NDArray2 "real list list"

text \<open>The result dictionary of \<open>calculate_carbon_value\<close>, one field per key.\<close>

record carbon_value =
  mean_carbon_mgha :: pyfloat
  total_carbon_mg :: pyfloat
  mean_co2_mgha :: pyfloat
  total_co2_mg :: pyfloat
  value_per_ha_usd :: pyfloat
  total_value_usd :: pyfloat
  npv_per_ha_usd :: pyfloat
  npv_total_usd :: pyfloat

definition co2_factor :: real where
  "co2_factor = 367 / 100"

text \<open>
  \<open>calculate_carbon_value(carbon_data, area_ha, price_per_ton_co2, discount_rate)\<close>.
  The logger is threaded through; the result is the dictionary or the exception raised.
\<close>

definition calculate_carbon_value ::
  "carbon_data \<Rightarrow> real \<Rightarrow> real \<Rightarrow> real \<Rightarrow> log \<Rightarrow> (exn + carbon_value) \<times> log" where
  "calculate_carbon_value carbon area_ha price_per_ton_co2 discount_rate lg =
    (let lg1 = logger_info ''Calculating carbon value'' lg;
         r = exn_bind
               (case carbon of
                  NDArray xs \<Rightarrow>
                    exn_bind
                      (if length xs > 0
                       then truediv (fmul (Fin (np_sum xs)) (Fin area_ha)) (Fin (real (length xs)))
                       else Inr (Fin 0))
                      (\<lambda>total_carbon. Inr (np_mean xs, total_carbon))
                | NDArray2 rows \<Rightarrow>
                    exn_bind
                      (if length rows > 0
                       then truediv (fmul (Fin (np_sum (concat rows))) (Fin area_ha))
                              (Fin (real (length rows)))
                       else Inr (Fin 0))
                      (\<lambda>total_carbon. Inr (np_mean (concat rows), total_carbon))
                | Scalar c \<Rightarrow> Inr (Fin c, fmul (Fin c) (Fin area_ha)))
               (\<lambda>(mean_carbon, total_carbon).
                  let mean_co2 = fmul mean_carbon (Fin co2_factor);
                      total_co2 = fmul total_carbon (Fin co2_factor);
                      value_per_ha = fmul mean_co2 (Fin price_per_ton_co2);
                      total_value = fmul total_co2 (Fin price_per_ton_co2)
                  in exn_bind
                       (if discount_rate > 0 then truediv value_per_ha (Fin discount_rate)
                        else Inr PosInf)
                       (\<lambda>npv_per_ha.
                          exn_bind
                            (if discount_rate > 0 then truediv total_value (Fin discount_rate)
                             else Inr PosInf)
                            (\<lambda>npv_total.
                               Inr \<lparr>mean_carbon_mgha = mean_carbon,
                                    total_carbon_mg = total_carbon,
                                    mean_co2_mgha = mean_co2,
                                    total_co2_mg = total_co2,
                                    value_per_ha_usd = value_per_ha,
                                    total_value_usd = total_value,
                                    npv_per_ha_usd = npv_per_ha,
                                    npv_total_usd = npv_total\<rparr>)))
     in case r of
          Inl e \<Rightarrow> (Inl e, lg1)
        | Inr results \<Rightarrow> (Inr results, logger_info ''Carbon value'' lg1))"

text \<open>The result dictionary of \<open>compare_scenarios\<close>.\<close>

record scenario_comparison =
  baseline_carbon_mgha :: pyfloat
  scenario_carbon_mgha :: pyfloat
  carbon_diff_mgha :: pyfloat
  carbon_diff_total_mg :: pyfloat
  co2_diff_mgha :: pyfloat
  co2_diff_total_mg :: pyfloat
  value_diff_per_ha_usd :: pyfloat
  value_diff_total_usd :: pyfloat
  percent_change :: pyfloat

text \<open>\<open>compare_scenarios(baseline_carbon, scenario_carbon, area_ha, price_per_ton_co2)\<close>.\<close>

definition compare_scenarios ::
  "carbon_data \<Rightarrow> carbon_data \<Rightarrow> real \<Rightarrow> real \<Rightarrow> log \<Rightarrow> (exn + scenario_comparison) \<times> log" where
  "compare_scenarios baseline_carbon scenario_carbon area_ha price_per_ton_co2 lg =
    (let lg1 = logger_info ''Comparing carbon scenarios...'' lg;
         baseline_mean = (case baseline_carbon of
                            NDArray xs \<Rightarrow> np_mean xs
                          | NDArray2 rows \<Rightarrow> np_mean (concat rows)
                          | Scalar c \<Rightarrow> Fin c);
         scenario_mean = (case scenario_carbon of
                            NDArray xs \<Rightarrow> np_mean xs
                          | NDArray2 rows \<Rightarrow> np_mean (concat rows)
                          | Scalar c \<Rightarrow> Fin c);
         carbon_diff = fsub scenario_mean baseline_mean;
         carbon_diff_total = fmul carbon_diff (Fin area_ha);
         co2_diff = fmul carbon_diff (Fin co2_factor);
         co2_diff_total = fmul carbon_diff_total (Fin co2_factor);
         value_diff_per_ha = fmul co2_diff (Fin price_per_ton_co2);
         value_diff_total = fmul co2_diff_total (Fin price_per_ton_co2);
         r = exn_bind
               (if ne_zero baseline_mean
                then exn_bind (truediv carbon_diff baseline_mean) (\<lambda>q. Inr (fmul q (Fin 100)))
                else Inr PosInf)
               (\<lambda>pct.
                  Inr \<lparr>baseline_carbon_mgha = baseline_mean,
                       scenario_carbon_mgha = scenario_mean,
                       carbon_diff_mgha = carbon_diff,
                       carbon_diff_total_mg = carbon_diff_total,
                       co2_diff_mgha = co2_diff,
                       co2_diff_total_mg = co2_diff_total,
                       value_diff_per_ha_usd = value_diff_per_ha,
                       value_diff_total_usd = value_diff_total,
                       percent_change = pct\<rparr>)
     in case r of
          Inl e \<Rightarrow> (Inl e, lg1)
        | Inr results \<Rightarrow> (Inr results, logger_info ''Scenario comparison'' lg1))"

text \<open>
  The mean a claim speaks of when the carbon data is "a scalar, or an array whose mean is
  taken": what both valuation functions compute at their \<open>isinstance\<close> test.
\<close>

definition carbon_mean :: "carbon_data \<Rightarrow> pyfloat" where
  "carbon_mean d =
    (case d of
       NDArray xs \<Rightarrow> np_mean xs
     | NDArray2 rows \<Rightarrow> np_mean (concat rows)
     | Scalar c \<Rightarrow> Fin c)"

section \<open>data/preprocess.py: rasters on disk\<close>

text \<open>
  A raster file as rasterio presents it: the metadata dictionary \<open>src.meta\<close> and the first
  band, \<open>src.read(1)\<close>, in row-major order. The pixels of a land-cover raster are integer
  class codes, held in an array of the integer dtype named in the metadata.
  \<open>compress\<close> is the creation option \<open>prepare_lulc_for_invest\<close> adds to the dictionary.
\<close>

record raster_meta =
  driver :: string
  dtype :: string
  nodata :: "int option"
  width :: nat
  height :: nat
  crs :: string
  transform :: "real list"
  compress :: "string option"

record raster =
  meta :: raster_meta
  band1 :: "int list"

text \<open>
  The files the functions read and write: rasters by path, reclassification tables
  (CSV files with the integer columns \<open>original_value\<close> and \<open>new_value\<close>, one pair per
  row) by path, and for each path the exception that creating or writing a raster there
  raises, if any.
\<close>

record files =
  rasters :: "string \<rightharpoonup> raster"
  tables :: "string \<rightharpoonup> (int \<times> int) list"
  write_error :: "string \<Rightarrow> exn option"

text \<open>\<open>rasterio.open(path)\<close> for reading: a missing file raises \<open>RasterioIOError\<close>.\<close>

definition rasterio_open :: "files \<Rightarrow> string \<Rightarrow> exn + raster" where
  "rasterio_open fs path =
    (case rasters fs path of None \<Rightarrow> Inl (LibraryError ''RasterioIOError'') | Some r \<Rightarrow> Inr r)"

text \<open>
  \<open>rasterio.open(path, "w", **meta)\<close> followed by \<open>dest.write(data, 1)\<close>: it raises, or
  the file holds the raster afterwards.
\<close>

definition rasterio_write :: "files \<Rightarrow> string \<Rightarrow> raster_meta \<Rightarrow> int list \<Rightarrow> exn + files" where
  "rasterio_write fs path m data =
    (case write_error fs path of
       Some e \<Rightarrow> Inl e
     | None \<Rightarrow> Inr (fs\<lparr>rasters := (rasters fs)(path \<mapsto> \<lparr>meta = m, band1 = data\<rparr>)\<rparr>))"

definition pd_read_csv :: "files \<Rightarrow> string \<Rightarrow> exn + (int \<times> int) list" where
  "pd_read_csv fs path =
    (case tables fs path of None \<Rightarrow> Inl FileNotFoundError | Some df \<Rightarrow> Inr df)"

text \<open>The argument \<open>reclassify_table\<close>: a path to a CSV file, or a DataFrame.\<close>

datatype reclassify_table = CsvPath string | DataFrame "(int \<times> int) list"

text \<open>
  \<^verbatim>\<open>
  if isinstance(reclassify_table, str):
      reclass_df = pd.read_csv(reclassify_table)
  else:
      reclass_df = reclassify_table
  \<close>
\<close>

definition load_reclass_table :: "files \<Rightarrow> reclassify_table \<Rightarrow> exn + (int \<times> int) list" where
  "load_reclass_table fs t =
    (case t of CsvPath path \<Rightarrow> pd_read_csv fs path | DataFrame df \<Rightarrow> Inr df)"

text \<open>
  \<open>dict(zip(keys, values))\<close>: a Python dictionary keeps the position of a key's first
  insertion and the value of its last.
\<close>

definition py_dict :: "('k \<times> 'v) list \<Rightarrow> ('k \<times> 'v) list" where
  "py_dict rows = foldl (\<lambda>d (k, v). AList.update k v d) [] rows"

text \<open>
  The range of the integer dtypes of a band. Bands of another dtype (floating point)
  are outside the model: no value counts as representable in them.
\<close>

definition dtype_bounds :: "string \<Rightarrow> (int \<times> int) option" where
  "dtype_bounds dt =
    (if dt = ''uint8'' then Some (0, 255)
     else if dt = ''int8'' then Some (- 128, 127)
     else if dt = ''uint16'' then Some (0, 65535)
     else if dt = ''int16'' then Some (- 32768, 32767)
     else if dt = ''uint32'' then Some (0, 4294967295)
     else if dt = ''int32'' then Some (- 2147483648, 2147483647)
     else if dt = ''uint64'' then Some (0, 18446744073709551615)
     else if dt = ''int64'' then Some (- 9223372036854775808, 9223372036854775807)
     else None)"

definition representable :: "string \<Rightarrow> int \<Rightarrow> bool" where
  "representable dt v =
    (case dtype_bounds dt of Some (lo, hi) \<Rightarrow> lo \<le> v \<and> v \<le> hi | None \<Rightarrow> False)"

text \<open>
  The conversion of a Python integer to the dtype of the array it is assigned into. The
  value is converted before the assignment, whatever the mask selects. A value in range is
  stored as it is; outside the range NumPy 2 raises \<open>OverflowError\<close>, which is what the
  model does (older versions wrap around instead: the results below are stated for
  representable values, on which the versions agree).
\<close>

definition np_cast :: "string \<Rightarrow> int \<Rightarrow> exn + int" where
  "np_cast dt v = (if representable dt v then Inr v else Inl (LibraryError ''OverflowError''))"

text \<open>
  The masked assignment \<open>target[source == orig_val] = new_val\<close> on arrays of one shape,
  \<open>target\<close> of dtype \<open>dt\<close>.
\<close>

definition assign_where_eq ::
  "string \<Rightarrow> int list \<Rightarrow> int \<Rightarrow> int \<Rightarrow> int list \<Rightarrow> exn + int list" where
  "assign_where_eq dt source orig_val new_val target =
    exn_bind (np_cast dt new_val)
      (\<lambda>c. Inr (map (\<lambda>(s, t). if s = orig_val then c else t) (zip source target)))"

text \<open>
  The reclassification loop of \<open>prepare_lulc_for_invest\<close>; the copy has the dtype of the
  band:
  \<^verbatim>\<open>
  reclass_data = np.copy(lulc_data)
  for orig_val, new_val in reclass_dict.items():
      reclass_data[lulc_data == orig_val] = new_val
  \<close>
\<close>

definition reclassify_loop :: "string \<Rightarrow> int list \<Rightarrow> (int \<times> int) list \<Rightarrow> exn + int list" where
  "reclassify_loop dt lulc_data items =
    foldl (\<lambda>acc (orig_val, new_val).
             exn_bind acc (\<lambda>reclass_data. assign_where_eq dt lulc_data orig_val new_val reclass_data))
      (Inr lulc_data) items"

text \<open>
  \<open>prepare_lulc_for_invest(lulc_path, output_path, reclassify_table=None)\<close>. Every
  exception of the body is logged and raised again; the files are then as they were.
\<close>

definition prepare_lulc_for_invest ::
  "files \<Rightarrow> string \<Rightarrow> string \<Rightarrow> reclassify_table option \<Rightarrow> log \<Rightarrow> (exn + string) \<times> files \<times> log" where
  "prepare_lulc_for_invest fs lulc_path output_path table lg =
    (let lg1 = logger_info ''Preparing LULC data for InVEST'' lg in
     case rasterio_open fs lulc_path of
       Inl e \<Rightarrow> (Inl e, fs, logger_error ''Error preparing LULC data'' lg1)
     | Inr src \<Rightarrow>
         (case (case table of
                  None \<Rightarrow> (Inr (band1 src), lg1)
                | Some t \<Rightarrow>
                    (case load_reclass_table fs t of
                       Inl e \<Rightarrow> (Inl e, lg1)
                     | Inr reclass_df \<Rightarrow>
                         let reclass_dict = py_dict reclass_df
                         in (reclassify_loop (dtype (meta src)) (band1 src) reclass_dict,
                             logger_info ''Reclassifying LULC values...'' lg1))) of
            (Inl e, lg2) \<Rightarrow> (Inl e, fs, logger_error ''Error preparing LULC data'' lg2)
          | (Inr lulc_data, lg2) \<Rightarrow>
              let m = (meta src)\<lparr>driver := ''GTiff'', nodata := Some 0, compress := Some ''lzw''\<rparr>
              in (case rasterio_write fs output_path m lulc_data of
                    Inl e \<Rightarrow> (Inl e, fs, logger_error ''Error preparing LULC data'' lg2)
                  | Inr fs' \<Rightarrow>
                      (Inr output_path, fs', logger_info ''Processed LULC raster saved'' lg2))))"

text \<open>
  A change area, as the raster sees it: the set of pixels (row-major indices) that
  rasterio's geometry mask counts as inside the area's shapes, after reprojection to the
  raster's CRS.
\<close>

type_synonym change_area = "nat set"

text \<open>
  Library contract of \<open>rasterio.mask.mask(src, shapes, crop=False, invert=False)\<close>, first
  band: the raster's data with every pixel outside the shapes set to the nodata value of
  the dataset, or to 0 when the dataset has none (\<open>filled=True\<close> is the default).
\<close>

definition rasterio_mask :: "raster \<Rightarrow> change_area \<Rightarrow> int list" where
  "rasterio_mask src shapes =
    (let fill = (case nodata (meta src) of Some n \<Rightarrow> n | None \<Rightarrow> 0)
     in map (\<lambda>(k, v). if k \<in> shapes then v else fill) (enumerate 0 (band1 src)))"

text \<open>\<open>a.astype(bool)\<close>: a number is true when it is not zero.\<close>

definition astype_bool :: "int list \<Rightarrow> bool list" where
  "astype_bool a = map (\<lambda>v. v \<noteq> 0) a"

text \<open>The boolean-mask assignment \<open>target[mask] = value\<close>, \<open>target\<close> of dtype \<open>dt\<close>.\<close>

definition assign_where :: "string \<Rightarrow> bool list \<Rightarrow> int \<Rightarrow> int list \<Rightarrow> exn + int list" where
  "assign_where dt msk new_value target =
    exn_bind (np_cast dt new_value)
      (\<lambda>c. Inr (map (\<lambda>(b, t). if b then c else t) (zip msk target)))"

text \<open>
  One round of the loop of \<open>create_scenario_lulc\<close>, skipped once an exception is on its
  way:
  \<^verbatim>\<open>
  area_mask, transform = mask(src, geoms, crop=False, invert=False)
  area_mask = area_mask[0].astype(bool)
  scenario_data[area_mask] = new_value
  logger.info(f"Updated change area {i+1} to value {new_value}")
  \<close>
\<close>

definition update_change_area ::
  "raster \<Rightarrow> (exn + int list) \<times> log \<Rightarrow> change_area \<times> int \<Rightarrow> (exn + int list) \<times> log" where
  "update_change_area src st an =
    (case st of
       (Inl e, lg) \<Rightarrow> (Inl e, lg)
     | (Inr scenario_data, lg) \<Rightarrow>
         (case an of (area, new_value) \<Rightarrow>
            let area_mask = astype_bool (rasterio_mask src area)
            in (case assign_where (dtype (meta src)) area_mask new_value scenario_data of
                  Inl e \<Rightarrow> (Inl e, lg)
                | Inr scenario_data' \<Rightarrow>
                    (Inr scenario_data', logger_info ''Updated change area'' lg))))"

text \<open>\<open>create_scenario_lulc(base_lulc_path, scenario_lulc_path, change_areas, new_values)\<close>.\<close>

definition create_scenario_lulc ::
  "files \<Rightarrow> string \<Rightarrow> string \<Rightarrow> change_area list \<Rightarrow> int list \<Rightarrow> log \<Rightarrow> (exn + string) \<times> files \<times> log" where
  "create_scenario_lulc fs base_lulc_path scenario_lulc_path change_areas new_values lg =
    (let lg1 = logger_info ''Creating scenario LULC'' lg in
     case rasterio_open fs base_lulc_path of
       Inl e \<Rightarrow> (Inl e, fs, logger_error ''Error creating scenario LULC'' lg1)
     | Inr src \<Rightarrow>
         (case foldl (update_change_area src) (Inr (band1 src), lg1)
                 (zip change_areas new_values) of
            (Inl e, lg2) \<Rightarrow> (Inl e, fs, logger_error ''Error creating scenario LULC'' lg2)
          | (Inr scenario_data, lg2) \<Rightarrow>
              (case rasterio_write fs scenario_lulc_path (meta src) scenario_data of
                 Inl e \<Rightarrow> (Inl e, fs, logger_error ''Error creating scenario LULC'' lg2)
               | Inr fs' \<Rightarrow>
                   (Inr scenario_lulc_path, fs',
                    logger_info ''Scenario LULC raster saved'' lg2))))"

text \<open>Rasters and files for the concrete runs below.\<close>

definition meta0 :: raster_meta where
  "meta0 = \<lparr>driver = ''GTiff'', dtype = ''uint8'', nodata = None, width = 2, height = 1,
            crs = ''EPSG:32753'', transform = [30, 0, 0, 0, - 30, 0], compress = None\<rparr>"

definition files_of :: "raster \<Rightarrow> files" where
  "files_of r = \<lparr>rasters = [''base.tif'' \<mapsto> r], tables = [''reclass.csv'' \<mapsto> [(1, 5), (5, 9)]],
                 write_error = (\<lambda>p. None)\<rparr>"

definition lulc0 :: raster where
  "lulc0 = \<lparr>meta = meta0, band1 = [1, 5, 3]\<rparr>"

section \<open>models/carbon.py: model inputs and result summaries\<close>

text \<open>
  What the functions see of the world outside: the file system and the library calls,
  each with the exception it may raise. \<open>read_band\<close> is \<open>rasterio.open(path)\<close> followed by
  \<open>src.read(1)\<close> on a land-cover raster (row-major), \<open>read_csv\<close> is \<open>pd.read_csv\<close> (the
  columns in order, each with its values; only the values of \<open>lucode\<close> are read),
  \<open>open_carbon\<close> opens a carbon raster and reads its first band and its resolution
  \<open>src.res\<close>, and \<open>mask_crop\<close> is \<open>rasterio.mask.mask(src, shapes, crop=True)\<close>, first band.
\<close>

type_synonym dataframe = "(string \<times> int list) list"

record carbon_raster =
  pixels :: "real list"
  res :: "real \<times> real"

record env =
  path_exists :: "string \<Rightarrow> bool"
  makedirs :: "string \<Rightarrow> exn option"
  read_band :: "string \<Rightarrow> exn + int list"
  read_csv :: "string \<Rightarrow> exn + dataframe"
  open_carbon :: "string \<Rightarrow> exn + carbon_raster"
  mask_crop :: "carbon_raster \<Rightarrow> nat set \<Rightarrow> exn + real list"

text \<open>The dictionary of model arguments that \<open>prepare_carbon_inputs\<close> returns.\<close>

record carbon_args =
  lulc_cur_path :: string
  carbon_pools_path :: string
  workspace_dir :: string

definition np_unique :: "int list \<Rightarrow> int list" where
  "np_unique xs = sort (remdups xs)"

definition required_cols :: "string list" where
  "required_cols = [''lucode'', ''c_above'', ''c_below'', ''c_soil'', ''c_dead'']"

text \<open>
  \<open>prepare_carbon_inputs(lulc_path, carbon_pools_csv, output_dir)\<close>. The two existence
  checks and \<open>os.makedirs\<close> stand outside every \<open>try\<close>; the two \<open>try\<close> blocks log what
  they catch at error level and raise it again.
\<close>

definition prepare_carbon_inputs ::
  "env \<Rightarrow> string \<Rightarrow> string \<Rightarrow> string \<Rightarrow> log \<Rightarrow> (exn + carbon_args) \<times> log" where
  "prepare_carbon_inputs ev lulc_path carbon_pools_csv output_dir lg =
    (let lg1 = logger_info ''Preparing Carbon model inputs...'' lg in
     if \<not> path_exists ev lulc_path then (Inl FileNotFoundError, lg1)
     else if \<not> path_exists ev carbon_pools_csv then (Inl FileNotFoundError, lg1)
     else
       (case (if \<not> path_exists ev output_dir then makedirs ev output_dir else None) of
          Some e \<Rightarrow> (Inl e, lg1)
        | None \<Rightarrow>
            (case read_band ev lulc_path of
               Inl e \<Rightarrow> (Inl e, logger_error ''Error reading LULC raster'' lg1)
             | Inr lulc_data \<Rightarrow>
                 let unique_values = np_unique lulc_data;
                     lg2 = logger_info ''LULC raster loaded'' lg1
                 in (case read_csv ev carbon_pools_csv of
                       Inl e \<Rightarrow> (Inl e, logger_error ''Error reading carbon pools CSV'' lg2)
                     | Inr carbon_df \<Rightarrow>
                         let missing_cols =
                               filter (\<lambda>col. col \<notin> set (map fst carbon_df)) required_cols
                         in if missing_cols \<noteq> []
                            then (Inl ValueError,
                                  logger_error ''Error reading carbon pools CSV'' lg2)
                            else
                              (case map_of carbon_df ''lucode'' of
                                 None \<Rightarrow>
                                   (Inl (LibraryError ''KeyError''),
                                    logger_error ''Error reading carbon pools CSV'' lg2)
                               | Some lucode \<Rightarrow>
                                   let missing_values =
                                         filter (\<lambda>val. val \<notin> set lucode \<and> val \<noteq> 0)
                                           unique_values;
                                       lg3 = (if missing_values \<noteq> []
                                              then logger_warning
                                                     ''Carbon data missing for LULC classes'' lg2
                                              else lg2);
                                       lg4 = logger_info ''Carbon pools data loaded'' lg3
                                   in (Inr \<lparr>lulc_cur_path = lulc_path,
                                            carbon_pools_path = carbon_pools_csv,
                                            workspace_dir = output_dir\<rparr>, lg4))))))"

text \<open>The summary dictionary; \<open>area_ha\<close> is a key that may be absent.\<close>

record carbon_summary =
  mean_carbon :: pyfloat
  median_carbon :: pyfloat
  min_carbon :: pyfloat
  max_carbon :: pyfloat
  total_carbon :: pyfloat
  pixel_count :: nat
  pixel_size :: real
  area_ha :: "real option"

text \<open>\<open>np.median\<close>: \<open>nan\<close> on an empty array, as \<open>np.mean\<close>.\<close>

definition np_median :: "real list \<Rightarrow> pyfloat" where
  "np_median xs =
    (let s = sort xs; n = length s
     in if n = 0 then NaN
        else if odd n then Fin (s ! (n div 2))
        else Fin ((s ! (n div 2 - 1) + s ! (n div 2)) / 2))"

text \<open>\<open>np.min\<close> and \<open>np.max\<close> raise \<open>ValueError\<close> on an empty array.\<close>

definition np_min :: "real list \<Rightarrow> exn + pyfloat" where
  "np_min xs = (if xs = [] then Inl ValueError else Inr (Fin (Min (set xs))))"

definition np_max :: "real list \<Rightarrow> exn + pyfloat" where
  "np_max xs = (if xs = [] then Inl ValueError else Inr (Fin (Max (set xs))))"

text \<open>
  The format specification \<open>:.2f\<close> in an f-string: a float is formatted (the text is not
  modelled), a string raises \<open>ValueError\<close> (unknown format code 'f' for a \<open>str\<close>).
\<close>

datatype fmt_arg = FloatArg pyfloat | StrArg string

definition format_2f :: "fmt_arg \<Rightarrow> exn + unit" where
  "format_2f a = (case a of FloatArg x \<Rightarrow> Inr () | StrArg s \<Rightarrow> Inl ValueError)"

text \<open>\<open>os.path.join(a, b)\<close> for a relative \<open>b\<close>.\<close>

definition os_path_join :: "string \<Rightarrow> string \<Rightarrow> string" where
  "os_path_join a b = (if a = [] then b else if last a = CHR ''/'' then a @ b else a @ ''/'' @ b)"

text \<open>
  The statistics both summaries compute from \<open>valid_data\<close>, in the order of the dictionary
  display: the first key whose value raises ends the evaluation. \<open>area_ha\<close> is set later.
\<close>

definition summary_statistics :: "real list \<Rightarrow> real \<times> real \<Rightarrow> exn + carbon_summary" where
  "summary_statistics valid_data rs =
    (let mean_c = np_mean valid_data;
         median_c = np_median valid_data
     in exn_bind (np_min valid_data) (\<lambda>min_c.
        exn_bind (np_max valid_data) (\<lambda>max_c.
          Inr \<lparr>mean_carbon = mean_c, median_carbon = median_c, min_carbon = min_c,
               max_carbon = max_c, total_carbon = Fin (np_sum valid_data),
               pixel_count = length valid_data, pixel_size = fst rs * snd rs,
               area_ha = None\<rparr>)))"

text \<open>
  \<open>summarize_carbon_results(workspace_dir)\<close>. Nothing is caught here. The last statement
  formats \<open>summary.get('area_ha', 'N/A')\<close> with \<open>:.2f\<close>.
\<close>

definition summarize_carbon_results :: "env \<Rightarrow> string \<Rightarrow> log \<Rightarrow> (exn + carbon_summary) \<times> log" where
  "summarize_carbon_results ev wdir lg =
    (let lg1 = logger_info ''Summarizing carbon results...'' lg;
         total_carbon_path = os_path_join wdir ''total_carbon.tif''
     in if \<not> path_exists ev total_carbon_path then (Inl FileNotFoundError, lg1)
        else
          (case exn_bind (open_carbon ev total_carbon_path) (\<lambda>src.
                  let carbon_data = pixels src;
                      valid_data = filter (\<lambda>v. v > 0) carbon_data
                  in exn_bind (summary_statistics valid_data (res src)) (\<lambda>summary0.
                       let summary =
                             (if fst (res src) = snd (res src)
                              then let pixel_size_m2 = fst (res src) * snd (res src)
                                   in summary0\<lparr>area_ha :=
                                        Some (real (pixel_count summary0) * pixel_size_m2 / 10000)\<rparr>
                              else summary0)
                       in exn_bind (format_2f (FloatArg (mean_carbon summary))) (\<lambda>_.
                          exn_bind (format_2f (FloatArg (total_carbon summary))) (\<lambda>_.
                          exn_bind (format_2f (case area_ha summary of
                                                 Some a \<Rightarrow> FloatArg (Fin a)
                                               | None \<Rightarrow> StrArg ''N/A'')) (\<lambda>_.
                            Inr summary))))) of
             Inl e \<Rightarrow> (Inl e, lg1)
           | Inr summary \<Rightarrow> (Inr summary, logger_info ''Carbon summary'' lg1)))"

text \<open>
  \<open>run_carbon_model(args)\<close>. \<open>execute\<close> is \<open>natcap.invest.carbon.execute\<close>: it raises, or
  leaves the world with its output files in it. The result is the \<open>summary\<close> entry of the
  returned dictionary (the other entry is what \<open>execute\<close> returned).
\<close>

definition run_carbon_model ::
  "(carbon_args \<Rightarrow> exn + env) \<Rightarrow> carbon_args \<Rightarrow> log \<Rightarrow> (exn + carbon_summary) \<times> log" where
  "run_carbon_model execute args lg =
    (let lg1 = logger_info ''Running InVEST Carbon Storage and Sequestration model...'' lg in
     case execute args of
       Inl e \<Rightarrow> (Inl e, logger_error ''Error executing carbon model'' lg1)
     | Inr ev \<Rightarrow>
         summarize_carbon_results ev (workspace_dir args)
           (logger_info ''Carbon model execution completed successfully'' lg1))"

text \<open>
  \<open>extract_carbon_for_region(carbon_raster_path, region_gdf)\<close>: the whole body is one
  \<open>try\<close> block. The region is the set of pixels its geometries cover.
\<close>

definition extract_carbon_for_region ::
  "env \<Rightarrow> string \<Rightarrow> nat set \<Rightarrow> log \<Rightarrow> (exn + real list \<times> carbon_summary) \<times> log" where
  "extract_carbon_for_region ev carbon_raster_path region lg =
    (let lg1 = logger_info ''Extracting carbon values for region'' lg in
     case exn_bind (open_carbon ev carbon_raster_path) (\<lambda>src.
            exn_bind (mask_crop ev src region) (\<lambda>masked_data.
              let valid_data = filter (\<lambda>v. v > 0) masked_data
              in exn_bind (summary_statistics valid_data (res src)) (\<lambda>summary0.
                   let pixel_size_m2 = fst (res src) * snd (res src);
                       summary = summary0\<lparr>area_ha :=
                         Some (real (pixel_count summary0) * pixel_size_m2 / 10000)\<rparr>
                   in exn_bind (format_2f (FloatArg (mean_carbon summary))) (\<lambda>_.
                      exn_bind (format_2f (FloatArg (total_carbon summary))) (\<lambda>_.
                        Inr (valid_data, summary)))))) of
       Inl e \<Rightarrow> (Inl e, logger_error ''Error extracting carbon values for region'' lg1)
     | Inr r \<Rightarrow> (Inr r, logger_info ''Extracted pixels'' lg1))"

text \<open>Worlds for the concrete runs below.\<close>

definition pools_csv :: dataframe where
  "pools_csv = [(''lucode'', [1, 2]), (''c_above'', [200, 5]), (''c_below'', [40, 2]),
                (''c_soil'', [100, 30]), (''c_dead'', [20, 0])]"

definition env_ok :: env where
  "env_ok = \<lparr>path_exists = (\<lambda>p. True), makedirs = (\<lambda>p. None),
             read_band = (\<lambda>p. Inr [0, 1, 2, 7, 1]), read_csv = (\<lambda>p. Inr pools_csv),
             open_carbon = (\<lambda>p. Inr \<lparr>pixels = [1, 3, 0, - 1], res = (30, 30)\<rparr>),
             mask_crop = (\<lambda>src region. Inr (pixels src))\<rparr>"

section \<open>Valuation of a scalar carbon density\<close>

text \<open>
  C1. For a scalar carbon density \<open>c\<close>, area \<open>a\<close>, price \<open>p\<close> and discount rate \<open>r > 0\<close>,
  \<open>calculate_carbon_value\<close> returns the dictionary with total carbon \<open>c*a\<close>, mean CO2
  \<open>c*3.67\<close>, total CO2 \<open>c*a*3.67\<close>, value per hectare \<open>c*3.67*p\<close>, total value
  \<open>c*a*3.67*p\<close>, and the two net present values \<open>c*3.67*p/r\<close> and \<open>c*a*3.67*p/r\<close>.
\<close>

theorem calculate_carbon_value_scalar:
  assumes "0 < r"
  shows "fst (calculate_carbon_value (Scalar c) a p r lg) =
           Inr \<lparr>mean_carbon_mgha = Fin c,
                total_carbon_mg = Fin (c * a),
                mean_co2_mgha = Fin (c * (367 / 100)),
                total_co2_mg = Fin (c * a * (367 / 100)),
                value_per_ha_usd = Fin (c * (367 / 100) * p),
                total_value_usd = Fin (c * a * (367 / 100) * p),
                npv_per_ha_usd = Fin (c * (367 / 100) * p / r),
                npv_total_usd = Fin (c * a * (367 / 100) * p / r)\<rparr>"
  using assms
  by (simp add: calculate_carbon_value_def exn_bind_def truediv_def co2_factor_def Let_def)

theorem calculate_carbon_value_scalar_witness:
  "(0::real) < 1 / 25 \<and>
   fst (calculate_carbon_value (Scalar 100) 10 40 (1 / 25) []) =
     Inr \<lparr>mean_carbon_mgha = Fin 100,
          total_carbon_mg = Fin 1000,
          mean_co2_mgha = Fin 367,
          total_co2_mg = Fin 3670,
          value_per_ha_usd = Fin 14680,
          total_value_usd = Fin 146800,
          npv_per_ha_usd = Fin 367000,
          npv_total_usd = Fin 3670000\<rparr>"
proof -
  have h: "(0::real) < 1 / 25" by simp
  show ?thesis
    using h calculate_carbon_value_scalar [OF h, of 100 10 40 "[]"] by simp
qed

section \<open>Scenario deltas\<close>

text \<open>
  What \<open>compare_scenarios\<close> returns for a baseline of mean \<open>b\<close> and a scenario of mean \<open>s\<close>,
  each entry as the code evaluates it. The percent change is \<open>(s - b) / b * 100\<close>, the
  quotient first.
\<close>

lemma compare_scenarios_in_code_order:
  assumes "carbon_mean bl = Fin b" and "carbon_mean sc = Fin s"
  shows "\<exists>res. fst (compare_scenarios bl sc a p lg) = Inr res \<and>
           carbon_diff_mgha res = Fin (s - b) \<and>
           carbon_diff_total_mg res = Fin ((s - b) * a) \<and>
           co2_diff_mgha res = Fin ((s - b) * (367 / 100)) \<and>
           co2_diff_total_mg res = Fin ((s - b) * a * (367 / 100)) \<and>
           value_diff_per_ha_usd res = Fin ((s - b) * (367 / 100) * p) \<and>
           value_diff_total_usd res = Fin ((s - b) * a * (367 / 100) * p) \<and>
           (b \<noteq> 0 \<longrightarrow> percent_change res = Fin ((s - b) / b * 100))"
proof -
  have bm: "(case bl of NDArray xs \<Rightarrow> np_mean xs | NDArray2 rows \<Rightarrow> np_mean (concat rows)
             | Scalar c \<Rightarrow> Fin c) = Fin b"
    using assms(1) by (simp add: carbon_mean_def)
  have sm: "(case sc of NDArray xs \<Rightarrow> np_mean xs | NDArray2 rows \<Rightarrow> np_mean (concat rows)
             | Scalar c \<Rightarrow> Fin c) = Fin s"
    using assms(2) by (simp add: carbon_mean_def)
  show ?thesis
    by (cases "b = 0")
      (simp_all add: compare_scenarios_def bm sm exn_bind_def truediv_def ne_zero_def
        co2_factor_def Let_def)
qed

section \<open>Guarded divisions\<close>

text \<open>
  C5. The valuation functions never divide by zero: \<open>calculate_carbon_value\<close> divides by
  the discount rate only when it is positive and returns \<open>inf\<close> for both net present values
  at every rate \<open>\<le> 0\<close>; \<open>compare_scenarios\<close> divides by the baseline mean only when it is
  not zero and returns \<open>inf\<close> for the percent change when it is zero. In the model a
  division by zero is the exception \<open>ZeroDivisionError\<close>, so no run raises it.
\<close>

theorem valuation_no_division_by_zero:
  "fst (calculate_carbon_value d a p r lg) \<noteq> Inl ZeroDivisionError \<and>
   (r \<le> 0 \<longrightarrow>
      (\<exists>res. fst (calculate_carbon_value d a p r lg) = Inr res \<and>
         npv_per_ha_usd res = PosInf \<and> npv_total_usd res = PosInf)) \<and>
   fst (compare_scenarios bl sc a p lg') \<noteq> Inl ZeroDivisionError \<and>
   (carbon_mean bl = Fin 0 \<longrightarrow>
      (\<exists>res. fst (compare_scenarios bl sc a p lg') = Inr res \<and> percent_change res = PosInf))"
proof -
  have c1: "fst (calculate_carbon_value d a p r lg) \<noteq> Inl ZeroDivisionError"
    by (cases d)
      (simp_all add: calculate_carbon_value_def exn_bind_def truediv_def Let_def
        split: sum.splits prod.splits)
  have c2: "r \<le> 0 \<Longrightarrow>
      \<exists>res. fst (calculate_carbon_value d a p r lg) = Inr res \<and>
         npv_per_ha_usd res = PosInf \<and> npv_total_usd res = PosInf"
    by (cases d)
      (simp_all add: calculate_carbon_value_def exn_bind_def truediv_def Let_def
        split: sum.splits prod.splits)
  have c3: "fst (compare_scenarios bl sc a p lg') \<noteq> Inl ZeroDivisionError"
    by (simp add: compare_scenarios_def exn_bind_def truediv_def ne_zero_def Let_def
        split: sum.splits)
  have c4: "carbon_mean bl = Fin 0 \<Longrightarrow>
      \<exists>res. fst (compare_scenarios bl sc a p lg') = Inr res \<and> percent_change res = PosInf"
    by (simp add: compare_scenarios_def carbon_mean_def exn_bind_def ne_zero_def Let_def)
  from c1 c2 c3 c4 show ?thesis by blast
qed

theorem valuation_no_division_by_zero_witness:
  "fst (calculate_carbon_value (Scalar 100) 10 40 (- 1) []) \<noteq> Inl ZeroDivisionError \<and>
   (- 1 :: real) \<le> 0 \<and>
   (\<exists>res. fst (calculate_carbon_value (Scalar 100) 10 40 (- 1) []) = Inr res \<and>
      npv_per_ha_usd res = PosInf \<and> npv_total_usd res = PosInf) \<and>
   fst (compare_scenarios (Scalar 0) (Scalar 5) 10 40 []) \<noteq> Inl ZeroDivisionError \<and>
   carbon_mean (Scalar 0) = Fin 0 \<and>
   (\<exists>res. fst (compare_scenarios (Scalar 0) (Scalar 5) 10 40 []) = Inr res \<and>
      percent_change res = PosInf)"
proof -
  have h1: "(- 1 :: real) \<le> 0" by simp
  have h2: "carbon_mean (Scalar 0) = Fin 0" by (simp add: carbon_mean_def)
  show ?thesis
    using h1 h2
      valuation_no_division_by_zero [of "Scalar 100" 10 40 "- 1" "[]" "Scalar 0" "Scalar 5" "[]"]
    by blast
qed

section \<open>Array and scalar paths\<close>




section \<open>Reclassification\<close>

text \<open>
  The loop rewrites exactly the matching pixels; with representable new values it never
  raises, and the dictionary of a table holds rows of the table only.
\<close>

lemma foldl_assign_pure:
  "length rd = length data \<Longrightarrow>
   length (foldl (\<lambda>r (ov, nv). map (\<lambda>(s, t). if s = ov then nv else t) (zip data r)) rd items) =
     length data \<and>
   (\<forall>i<length data.
      foldl (\<lambda>r (ov, nv). map (\<lambda>(s, t). if s = ov then nv else t) (zip data r)) rd items ! i =
      (case map_of (rev items) (data ! i) of Some n \<Rightarrow> n | None \<Rightarrow> rd ! i))"
proof (induction items arbitrary: rd)
  case Nil
  then show ?case by simp
next
  case (Cons it items)
  obtain ov nv where it: "it = (ov, nv)" by (cases it)
  have len: "length (map (\<lambda>(s, t). if s = ov then nv else t) (zip data rd)) = length data"
    using Cons.prems by simp
  note ih = Cons.IH [OF len]
  show ?case
    using ih Cons.prems
    by (auto simp: it map_add_def split: option.splits)
qed

lemma foldl_assign_representable:
  assumes "\<forall>x\<in>set items. representable dt (snd x)"
  shows "foldl (\<lambda>acc (ov, nv). exn_bind acc (\<lambda>r. assign_where_eq dt data ov nv r))
           (Inr rd) items =
         Inr (foldl (\<lambda>r (ov, nv). map (\<lambda>(s, t). if s = ov then nv else t) (zip data r)) rd items)"
  using assms
proof (induction items arbitrary: rd)
  case Nil
  then show ?case by simp
next
  case (Cons it items)
  obtain ov nv where it: "it = (ov, nv)" by (cases it)
  have r: "representable dt nv" using Cons.prems by (simp add: it)
  have step: "exn_bind (Inr rd) (\<lambda>r. assign_where_eq dt data ov nv r) =
      Inr (map (\<lambda>(s, t). if s = ov then nv else t) (zip data rd))"
    using r by (simp add: exn_bind_def assign_where_eq_def np_cast_def)
  have rest: "\<forall>x\<in>set items. representable dt (snd x)" using Cons.prems by simp
  show ?case
    by (simp add: it step Cons.IH [OF rest])
qed

lemma reclassify_loop_eq:
  assumes "\<forall>x\<in>set items. representable dt (snd x)"
  shows "reclassify_loop dt data items =
    Inr (map (\<lambda>v. case map_of (rev items) v of Some n \<Rightarrow> n | None \<Rightarrow> v) data)"
proof -
  have "foldl (\<lambda>r (ov, nv). map (\<lambda>(s, t). if s = ov then nv else t) (zip data r)) data items =
      map (\<lambda>v. case map_of (rev items) v of Some n \<Rightarrow> n | None \<Rightarrow> v) data"
    using foldl_assign_pure [of data data items]
    by (intro nth_equalityI) auto
  then show ?thesis
    unfolding reclassify_loop_def
    by (simp add: foldl_assign_representable [OF assms])
qed

lemma map_of_foldl_update:
  "map_of (foldl (\<lambda>d (k, v). AList.update k v d) d rows) = map_of d ++ map_of (rev rows)"
proof (induction rows arbitrary: d)
  case Nil
  then show ?case by simp
next
  case (Cons r rows)
  obtain k v where r: "r = (k, v)" by (cases r)
  show ?case
    by (simp add: r Cons.IH update_conv' map_add_def fun_eq_iff split: option.splits)
qed

lemma distinct_foldl_update:
  "distinct (map fst d) \<Longrightarrow>
   distinct (map fst (foldl (\<lambda>d (k, v). AList.update k v d) d rows))"
  by (induction rows arbitrary: d) (auto simp: distinct_update)

lemma map_of_py_dict: "map_of (py_dict rows) = map_of (rev rows)"
  by (simp add: py_dict_def map_of_foldl_update)

lemma distinct_py_dict: "distinct (map fst (py_dict rows))"
  by (simp add: py_dict_def distinct_foldl_update)

lemma set_py_dict: "set (py_dict rows) \<subseteq> set rows"
proof
  fix x assume x: "x \<in> set (py_dict rows)"
  obtain k v where kv: "x = (k, v)" by (cases x)
  have "map_of (py_dict rows) k = Some v"
    using x kv distinct_py_dict [of rows] by simp
  then have "map_of (rev rows) k = Some v" by (simp add: map_of_py_dict)
  then have "(k, v) \<in> set (rev rows)" by (rule map_of_SomeD)
  then show "x \<in> set rows" by (simp add: kv)
qed

lemma map_of_perm:
  assumes "distinct (map fst xs)" and "mset ys = mset xs"
  shows "map_of ys = map_of xs"
proof -
  have "mset (map fst ys) = mset (map fst xs)" using assms(2) by (metis mset_map)
  then have d: "distinct (map fst ys)" using assms(1) by (metis mset_eq_imp_distinct_iff)
  have "set ys = set xs" using assms(2) by (metis mset_eq_setD)
  then show ?thesis using d assms(1) by (simp add: map_of_inject_set)
qed

lemma reclassify_loop_perm:
  assumes "distinct (map fst xs)" and "mset ys = mset xs"
    and "\<forall>x\<in>set xs. representable dt (snd x)"
  shows "reclassify_loop dt data ys = reclassify_loop dt data xs"
proof -
  have "mset (rev ys) = mset (rev xs)" using assms(2) by simp
  moreover have "distinct (map fst (rev xs))" using assms(1) by (simp add: rev_map [symmetric])
  ultimately have m: "map_of (rev ys) = map_of (rev xs)" by (rule map_of_perm [rotated])
  have "set ys = set xs" using assms(2) by (metis mset_eq_setD)
  then have ry: "\<forall>x\<in>set ys. representable dt (snd x)" using assms(3) by simp
  show ?thesis
    by (simp add: reclassify_loop_eq [OF ry] reclassify_loop_eq [OF assms(3)] m)
qed

lemma reclassify_py_dict:
  assumes "\<forall>x\<in>set rows. representable dt (snd x)"
  shows "reclassify_loop dt data (py_dict rows) =
   Inr (map (\<lambda>v. case map_of (rev rows) v of Some n \<Rightarrow> n | None \<Rightarrow> v) data)"
proof -
  have r: "\<forall>x\<in>set (py_dict rows). representable dt (snd x)"
    using assms set_py_dict [of rows] by blast
  have "map_of (rev (py_dict rows)) = map_of (py_dict rows)"
    by (rule map_of_perm) (simp_all add: distinct_py_dict)
  then show ?thesis by (simp add: reclassify_loop_eq [OF r] map_of_py_dict)
qed

lemma py_dict_perm:
  assumes "distinct (map fst rows)" and "mset rows' = mset rows"
    and "\<forall>x\<in>set rows. representable dt (snd x)"
  shows "reclassify_loop dt data (py_dict rows') = reclassify_loop dt data (py_dict rows)"
proof -
  have "mset (rev rows') = mset (rev rows)" using assms(2) by simp
  moreover have "distinct (map fst (rev rows))" using assms(1) by (simp add: rev_map [symmetric])
  ultimately have m: "map_of (rev rows') = map_of (rev rows)" by (rule map_of_perm [rotated])
  have "set rows' = set rows" using assms(2) by (metis mset_eq_setD)
  then have r': "\<forall>x\<in>set rows'. representable dt (snd x)" using assms(3) by simp
  show ?thesis
    by (simp add: reclassify_py_dict [OF r'] reclassify_py_dict [OF assms(3)] m)
qed

lemma prepare_lulc_for_invest_run:
  assumes "rasters fs lulc_path = Some src"
    and "load_reclass_table fs t = Inr rows"
    and "reclassify_loop (dtype (meta src)) (band1 src) (py_dict rows) = Inr d"
    and "write_error fs out = None"
  shows "prepare_lulc_for_invest fs lulc_path out (Some t) lg =
      (Inr out,
       fs\<lparr>rasters := (rasters fs)(out \<mapsto>
            \<lparr>meta = (meta src)\<lparr>driver := ''GTiff'', nodata := Some 0, compress := Some ''lzw''\<rparr>,
             band1 = d\<rparr>)\<rparr>,
       logger_info ''Processed LULC raster saved''
         (logger_info ''Reclassifying LULC values...''
            (logger_info ''Preparing LULC data for InVEST'' lg)))"
  using assms
  by (simp add: prepare_lulc_for_invest_def rasterio_open_def rasterio_write_def Let_def)

text \<open>
  C3, as the code has it. For a readable raster, a table given as a DataFrame or as the
  path of a readable CSV file, new values that the dtype of the band can represent, and
  an output that can be written, \<open>prepare_lulc_for_invest\<close> writes a raster in which every
  pixel whose original value is an \<open>original_value\<close> of the table is replaced by the
  \<open>new_value\<close> of the last row with that \<open>original_value\<close>, and every other pixel keeps
  its value: the mapping is applied against the original data, a pixel is rewritten once
  and never chained through a second rule. The result does not depend on the order in
  which the entries of the dictionary are visited, nor on the order of the table's rows
  when their \<open>original_value\<close>s are distinct.
\<close>

theorem prepare_lulc_for_invest_reclassify:
  assumes "rasters fs lulc_path = Some src"
    and "load_reclass_table fs t = Inr rows"
    and "\<forall>x\<in>set rows. representable (dtype (meta src)) (snd x)"
    and "write_error fs out = None"
  shows "fst (prepare_lulc_for_invest fs lulc_path out (Some t) lg) = Inr out \<and>
    map_option band1
      (rasters (fst (snd (prepare_lulc_for_invest fs lulc_path out (Some t) lg))) out) =
      Some (map (\<lambda>v. case map_of (rev rows) v of Some n \<Rightarrow> n | None \<Rightarrow> v) (band1 src)) \<and>
    (\<forall>items. mset items = mset (py_dict rows) \<longrightarrow>
       reclassify_loop (dtype (meta src)) (band1 src) items =
       reclassify_loop (dtype (meta src)) (band1 src) (py_dict rows)) \<and>
    (\<forall>rows'. distinct (map fst rows) \<longrightarrow> mset rows' = mset rows \<longrightarrow>
       prepare_lulc_for_invest fs lulc_path out (Some (DataFrame rows')) lg =
       prepare_lulc_for_invest fs lulc_path out (Some t) lg)"
proof -
  let ?dt = "dtype (meta src)"
  let ?d = "map (\<lambda>v. case map_of (rev rows) v of Some n \<Rightarrow> n | None \<Rightarrow> v) (band1 src)"
  have loop: "reclassify_loop ?dt (band1 src) (py_dict rows) = Inr ?d"
    by (rule reclassify_py_dict [OF assms(3)])
  note run = prepare_lulc_for_invest_run [OF assms(1) assms(2) loop assms(4)]
  have a: "fst (prepare_lulc_for_invest fs lulc_path out (Some t) lg) = Inr out"
    by (simp add: run)
  have b: "map_option band1
      (rasters (fst (snd (prepare_lulc_for_invest fs lulc_path out (Some t) lg))) out) =
      Some ?d"
    by (simp add: run)
  have rd: "\<forall>x\<in>set (py_dict rows). representable ?dt (snd x)"
    using assms(3) set_py_dict [of rows] by blast
  have c: "\<forall>items. mset items = mset (py_dict rows) \<longrightarrow>
       reclassify_loop ?dt (band1 src) items =
       reclassify_loop ?dt (band1 src) (py_dict rows)"
  proof (intro allI impI)
    fix items :: "(int \<times> int) list"
    assume "mset items = mset (py_dict rows)"
    with distinct_py_dict [of rows]
    show "reclassify_loop ?dt (band1 src) items =
        reclassify_loop ?dt (band1 src) (py_dict rows)"
      using rd by (rule reclassify_loop_perm)
  qed
  have d: "\<forall>rows'. distinct (map fst rows) \<longrightarrow> mset rows' = mset rows \<longrightarrow>
       prepare_lulc_for_invest fs lulc_path out (Some (DataFrame rows')) lg =
       prepare_lulc_for_invest fs lulc_path out (Some t) lg"
  proof (intro allI impI)
    fix rows' :: "(int \<times> int) list"
    assume dist: "distinct (map fst rows)" and ms: "mset rows' = mset rows"
    have "reclassify_loop ?dt (band1 src) (py_dict rows') =
        reclassify_loop ?dt (band1 src) (py_dict rows)"
      using dist ms assms(3) by (rule py_dict_perm)
    then have loop': "reclassify_loop ?dt (band1 src) (py_dict rows') = Inr ?d"
      by (simp only: loop)
    have ld: "load_reclass_table fs (DataFrame rows') = Inr rows'"
      by (simp add: load_reclass_table_def)
    note run' = prepare_lulc_for_invest_run [OF assms(1) ld loop' assms(4)]
    show "prepare_lulc_for_invest fs lulc_path out (Some (DataFrame rows')) lg =
       prepare_lulc_for_invest fs lulc_path out (Some t) lg"
      by (simp only: run run')
  qed
  show ?thesis
    by (rule conjI [OF a conjI [OF b conjI [OF c d]]])
qed

theorem prepare_lulc_for_invest_reclassify_witness:
  "rasters (files_of lulc0) ''base.tif'' = Some lulc0 \<and>
   load_reclass_table (files_of lulc0) (CsvPath ''reclass.csv'') = Inr [(1, 5), (5, 9)] \<and>
   representable (dtype (meta lulc0)) 5 \<and> representable (dtype (meta lulc0)) 9 \<and>
   write_error (files_of lulc0) ''out.tif'' = None \<and>
   fst (prepare_lulc_for_invest (files_of lulc0) ''base.tif'' ''out.tif''
          (Some (CsvPath ''reclass.csv'')) []) = Inr ''out.tif'' \<and>
   map_option band1
     (rasters (fst (snd (prepare_lulc_for_invest (files_of lulc0) ''base.tif'' ''out.tif''
          (Some (CsvPath ''reclass.csv'')) []))) ''out.tif'') = Some [5, 9, 3] \<and>
   mset [(5, 9), (1, 5)] = mset (py_dict [(1, 5), (5 :: int, 9 :: int)]) \<and>
   reclassify_loop (dtype (meta lulc0)) (band1 lulc0) [(5, 9), (1, 5)] =
     reclassify_loop (dtype (meta lulc0)) (band1 lulc0) (py_dict [(1, 5), (5, 9)]) \<and>
   distinct (map fst [(1 :: int, 5 :: int), (5, 9)]) \<and>
   mset [(5, 9), (1, 5)] = mset [(1 :: int, 5 :: int), (5, 9)] \<and>
   prepare_lulc_for_invest (files_of lulc0) ''base.tif'' ''out.tif''
     (Some (DataFrame [(5, 9), (1, 5)])) [] =
   prepare_lulc_for_invest (files_of lulc0) ''base.tif'' ''out.tif''
     (Some (CsvPath ''reclass.csv'')) []"
proof -
  have h1: "rasters (files_of lulc0) ''base.tif'' = Some lulc0"
    by (simp add: files_of_def)
  have h2: "load_reclass_table (files_of lulc0) (CsvPath ''reclass.csv'') = Inr [(1, 5), (5, 9)]"
    by (simp add: load_reclass_table_def pd_read_csv_def files_of_def)
  have r5: "representable (dtype (meta lulc0)) 5"
    by (simp add: representable_def dtype_bounds_def lulc0_def meta0_def)
  have r9: "representable (dtype (meta lulc0)) 9"
    by (simp add: representable_def dtype_bounds_def lulc0_def meta0_def)
  have h3: "\<forall>x\<in>set [(1 :: int, 5 :: int), (5, 9)]. representable (dtype (meta lulc0)) (snd x)"
    using r5 r9 by simp
  have h4: "write_error (files_of lulc0) ''out.tif'' = None"
    by (simp add: files_of_def)
  have p: "py_dict [(1, 5), (5 :: int, 9 :: int)] = [(1, 5), (5, 9)]"
    by (simp add: py_dict_def)
  have m: "mset [(5, 9), (1, 5)] = mset [(1 :: int, 5 :: int), (5, 9)]"
    by simp
  have m': "mset [(5, 9), (1, 5)] = mset (py_dict [(1, 5), (5 :: int, 9 :: int)])"
    by (simp add: p)
  have dst: "distinct (map fst [(1 :: int, 5 :: int), (5, 9)])"
    by simp
  have b1: "band1 lulc0 = [1, 5, 3]" by (simp add: lulc0_def)
  note t = prepare_lulc_for_invest_reclassify [OF h1 h2 h3 h4, of "[]"]
  note t1 = conjunct1 [OF t]
  note t2raw = conjunct1 [OF conjunct2 [OF t]]
  note t3raw = conjunct1 [OF conjunct2 [OF conjunct2 [OF t]]]
  note t4raw = conjunct2 [OF conjunct2 [OF conjunct2 [OF t]]]
  have t2: "map_option band1
     (rasters (fst (snd (prepare_lulc_for_invest (files_of lulc0) ''base.tif'' ''out.tif''
          (Some (CsvPath ''reclass.csv'')) []))) ''out.tif'') = Some [5, 9, 3]"
    using t2raw by (simp add: b1)
  note t3 = t3raw [rule_format, OF m']
  note t4 = t4raw [rule_format, OF dst m]
  show ?thesis
    by (rule conjI [OF h1 conjI [OF h2 conjI [OF r5 conjI [OF r9 conjI [OF h4
          conjI [OF t1 conjI [OF t2 conjI [OF m' conjI [OF t3
          conjI [OF dst conjI [OF m t4]]]]]]]]]]])
qed

text \<open>
  C3 as stated fails for a table that repeats an \<open>original_value\<close>: the dictionary keeps the
  last row, so the two orders of the rows \<open>(1, 5)\<close> and \<open>(1, 6)\<close> give different rasters.
\<close>

theorem prepare_lulc_for_invest_row_order_counterexample:
  "mset [(1, 6), (1, 5)] = mset [(1 :: int, 5 :: int), (1, 6)] \<and>
   map_option band1
     (rasters (fst (snd (prepare_lulc_for_invest (files_of lulc0) ''base.tif'' ''out.tif''
          (Some (DataFrame [(1, 5), (1, 6)])) []))) ''out.tif'') = Some [6, 5, 3] \<and>
   map_option band1
     (rasters (fst (snd (prepare_lulc_for_invest (files_of lulc0) ''base.tif'' ''out.tif''
          (Some (DataFrame [(1, 6), (1, 5)])) []))) ''out.tif'') = Some [5, 5, 3]"
  by (simp add: prepare_lulc_for_invest_def rasterio_open_def rasterio_write_def exn_bind_def
      load_reclass_table_def files_of_def lulc0_def meta0_def py_dict_def reclassify_loop_def
      assign_where_eq_def np_cast_def representable_def dtype_bounds_def Let_def)

section \<open>Scenario rasters\<close>

text \<open>
  C4. The claim is that every pixel inside a change area gets the area's new value and
  every pixel outside all areas keeps the base value. The code derives its boolean mask
  from the values of the masked raster, not from the geometry, so both parts fail: a pixel
  of value 0 inside the area is not changed (first run: base \<open>[0, 3]\<close>, area covering pixel
  0, new value 5, result \<open>[0, 3]\<close>), and with a nodata value other than 0 every pixel outside
  the area is overwritten (second run: nodata 255, base \<open>[1, 2]\<close>, same area, result
  \<open>[5, 5]\<close>).
\<close>

theorem create_scenario_lulc_mask_from_values:
  "map_option band1
     (rasters (fst (snd (create_scenario_lulc (files_of \<lparr>meta = meta0, band1 = [0, 3]\<rparr>)
        ''base.tif'' ''scenario.tif'' [{0}] [5] []))) ''scenario.tif'') = Some [0, 3] \<and>
   map_option band1
     (rasters (fst (snd (create_scenario_lulc
        (files_of \<lparr>meta = meta0\<lparr>nodata := Some 255\<rparr>, band1 = [1, 2]\<rparr>)
        ''base.tif'' ''scenario.tif'' [{0}] [5] []))) ''scenario.tif'') = Some [5, 5]"
  by (simp add: create_scenario_lulc_def files_of_def rasterio_open_def rasterio_write_def
      update_change_area_def astype_bool_def rasterio_mask_def assign_where_def np_cast_def
      representable_def dtype_bounds_def exn_bind_def meta0_def
      logger_info_def enumerate_eq_zip upt_rec)

section \<open>Failures of the model-input functions\<close>

text \<open>Each way through \<open>prepare_carbon_inputs\<close>, and the failure of the model run.\<close>

lemma prepare_missing_path:
  assumes "\<not> path_exists ev lulc \<or> \<not> path_exists ev csv"
  shows "prepare_carbon_inputs ev lulc csv out lg =
    (Inl FileNotFoundError, logger_info ''Preparing Carbon model inputs...'' lg)"
  using assms by (auto simp: prepare_carbon_inputs_def Let_def)

lemma prepare_makedirs_error:
  assumes "path_exists ev lulc" and "path_exists ev csv"
    and "\<not> path_exists ev out" and "makedirs ev out = Some e"
  shows "prepare_carbon_inputs ev lulc csv out lg =
    (Inl e, logger_info ''Preparing Carbon model inputs...'' lg)"
  using assms by (simp add: prepare_carbon_inputs_def Let_def)

lemma prepare_file_not_found_only_from_library:
  assumes "path_exists ev lulc" and "path_exists ev csv"
    and "makedirs ev out \<noteq> Some FileNotFoundError"
    and "read_band ev lulc \<noteq> Inl FileNotFoundError"
    and "read_csv ev csv \<noteq> Inl FileNotFoundError"
  shows "fst (prepare_carbon_inputs ev lulc csv out lg) \<noteq> Inl FileNotFoundError"
  using assms
  by (auto simp: prepare_carbon_inputs_def Let_def split: option.splits sum.splits)

lemma prepare_raster_error:
  assumes "path_exists ev lulc" and "path_exists ev csv"
    and "path_exists ev out \<or> makedirs ev out = None"
    and "read_band ev lulc = Inl e"
  shows "prepare_carbon_inputs ev lulc csv out lg =
    (Inl e, logger_error ''Error reading LULC raster''
       (logger_info ''Preparing Carbon model inputs...'' lg))"
  using assms by (auto simp: prepare_carbon_inputs_def Let_def)

lemma prepare_csv_error:
  assumes "path_exists ev lulc" and "path_exists ev csv"
    and "path_exists ev out \<or> makedirs ev out = None"
    and "read_band ev lulc = Inr d" and "read_csv ev csv = Inl e"
  shows "prepare_carbon_inputs ev lulc csv out lg =
    (Inl e, logger_error ''Error reading carbon pools CSV''
       (logger_info ''LULC raster loaded''
          (logger_info ''Preparing Carbon model inputs...'' lg)))"
  using assms by (auto simp: prepare_carbon_inputs_def Let_def)

lemma prepare_missing_columns:
  assumes "path_exists ev lulc" and "path_exists ev csv"
    and "path_exists ev out \<or> makedirs ev out = None"
    and "read_band ev lulc = Inr d" and "read_csv ev csv = Inr df"
    and "\<not> set required_cols \<subseteq> set (map fst df)"
  shows "prepare_carbon_inputs ev lulc csv out lg =
    (Inl ValueError, logger_error ''Error reading carbon pools CSV''
       (logger_info ''LULC raster loaded''
          (logger_info ''Preparing Carbon model inputs...'' lg)))"
proof -
  have "filter (\<lambda>col. col \<notin> set (map fst df)) required_cols \<noteq> []"
    using assms(6) by (auto simp: filter_empty_conv)
  then show ?thesis
    using assms(1-5) by (auto simp: prepare_carbon_inputs_def Let_def)
qed

lemma prepare_returns:
  assumes "path_exists ev lulc" and "path_exists ev csv"
    and "path_exists ev out \<or> makedirs ev out = None"
    and "read_band ev lulc = Inr d" and "read_csv ev csv = Inr df"
    and "set required_cols \<subseteq> set (map fst df)"
  shows "\<exists>lucode. map_of df ''lucode'' = Some lucode \<and>
    prepare_carbon_inputs ev lulc csv out lg =
    (Inr \<lparr>lulc_cur_path = lulc, carbon_pools_path = csv, workspace_dir = out\<rparr>,
     logger_info ''Carbon pools data loaded''
       ((if \<exists>v\<in>set d. v \<notin> set lucode \<and> v \<noteq> 0
         then logger_warning ''Carbon data missing for LULC classes'' else id)
          (logger_info ''LULC raster loaded''
             (logger_info ''Preparing Carbon model inputs...'' lg))))"
proof -
  have nomiss: "filter (\<lambda>col. col \<notin> set (map fst df)) required_cols = []"
    using assms(6) by (auto simp: filter_empty_conv)
  have "''lucode'' \<in> set required_cols" by (simp add: required_cols_def)
  then have "''lucode'' \<in> fst ` set df" using assms(6) by auto
  then obtain lucode where lu: "map_of df ''lucode'' = Some lucode"
    by (metis map_of_eq_None_iff not_Some_eq)
  have mv: "(filter (\<lambda>val. val \<notin> set lucode \<and> val \<noteq> 0) (np_unique d) \<noteq> []) =
      (\<exists>v\<in>set d. v \<notin> set lucode \<and> v \<noteq> 0)"
    by (auto simp: filter_empty_conv np_unique_def)
  have "prepare_carbon_inputs ev lulc csv out lg =
    (Inr \<lparr>lulc_cur_path = lulc, carbon_pools_path = csv, workspace_dir = out\<rparr>,
     logger_info ''Carbon pools data loaded''
       ((if \<exists>v\<in>set d. v \<notin> set lucode \<and> v \<noteq> 0
         then logger_warning ''Carbon data missing for LULC classes'' else id)
          (logger_info ''LULC raster loaded''
             (logger_info ''Preparing Carbon model inputs...'' lg))))"
    using assms(1-5) nomiss lu mv
    by (auto simp: prepare_carbon_inputs_def Let_def)
  with lu show ?thesis by blast
qed

lemma run_carbon_model_error:
  assumes "execute args = Inl e"
  shows "run_carbon_model execute args lg =
    (Inl e, logger_error ''Error executing carbon model''
       (logger_info ''Running InVEST Carbon Storage and Sequestration model...'' lg))"
  using assms by (simp add: run_carbon_model_def Let_def)

text \<open>
  C6, as the code has it. There is no recovery: an exception raised inside a \<open>try\<close> block
  (reading the raster, reading and validating the CSV, executing the model) is logged at
  error level and raised again unchanged, while the \<open>FileNotFoundError\<close> of the two
  existence checks (and a failure of \<open>os.makedirs\<close>) propagates without an error entry in
  the log. \<open>prepare_carbon_inputs\<close> raises \<open>FileNotFoundError\<close> whenever the LULC path or
  the CSV path does not exist; when both exist it raises \<open>FileNotFoundError\<close> only if a
  library call (\<open>os.makedirs\<close>, the raster read, the CSV read) does. It raises \<open>ValueError\<close>
  when both files are read and the CSV lacks a required column, and it returns normally,
  with a warning and no error logged, when classes of the raster other than 0 have no
  carbon data.
\<close>

theorem prepare_carbon_inputs_failures:
  "(\<not> path_exists ev lulc \<or> \<not> path_exists ev csv \<longrightarrow>
      prepare_carbon_inputs ev lulc csv out lg =
        (Inl FileNotFoundError, logger_info ''Preparing Carbon model inputs...'' lg)) \<and>
   (path_exists ev lulc \<and> path_exists ev csv \<and>
    makedirs ev out \<noteq> Some FileNotFoundError \<and>
    read_band ev lulc \<noteq> Inl FileNotFoundError \<and>
    read_csv ev csv \<noteq> Inl FileNotFoundError \<longrightarrow>
      fst (prepare_carbon_inputs ev lulc csv out lg) \<noteq> Inl FileNotFoundError) \<and>
   (path_exists ev lulc \<and> path_exists ev csv \<and>
    (path_exists ev out \<or> makedirs ev out = None) \<and> read_band ev lulc = Inl e \<longrightarrow>
      prepare_carbon_inputs ev lulc csv out lg =
        (Inl e, logger_error ''Error reading LULC raster''
           (logger_info ''Preparing Carbon model inputs...'' lg))) \<and>
   (path_exists ev lulc \<and> path_exists ev csv \<and>
    (path_exists ev out \<or> makedirs ev out = None) \<and> read_band ev lulc = Inr d \<and>
    read_csv ev csv = Inl e \<longrightarrow>
      prepare_carbon_inputs ev lulc csv out lg =
        (Inl e, logger_error ''Error reading carbon pools CSV''
           (logger_info ''LULC raster loaded''
              (logger_info ''Preparing Carbon model inputs...'' lg)))) \<and>
   (path_exists ev lulc \<and> path_exists ev csv \<and>
    (path_exists ev out \<or> makedirs ev out = None) \<and> read_band ev lulc = Inr d \<and>
    read_csv ev csv = Inr df \<and> \<not> set required_cols \<subseteq> set (map fst df) \<longrightarrow>
      prepare_carbon_inputs ev lulc csv out lg =
        (Inl ValueError, logger_error ''Error reading carbon pools CSV''
           (logger_info ''LULC raster loaded''
              (logger_info ''Preparing Carbon model inputs...'' lg)))) \<and>
   (path_exists ev lulc \<and> path_exists ev csv \<and>
    (path_exists ev out \<or> makedirs ev out = None) \<and> read_band ev lulc = Inr d \<and>
    read_csv ev csv = Inr df \<and> set required_cols \<subseteq> set (map fst df) \<longrightarrow>
      (\<exists>lucode. map_of df ''lucode'' = Some lucode \<and>
         prepare_carbon_inputs ev lulc csv out lg =
           (Inr \<lparr>lulc_cur_path = lulc, carbon_pools_path = csv, workspace_dir = out\<rparr>,
            logger_info ''Carbon pools data loaded''
              ((if \<exists>v\<in>set d. v \<notin> set lucode \<and> v \<noteq> 0
                then logger_warning ''Carbon data missing for LULC classes'' else id)
                 (logger_info ''LULC raster loaded''
                    (logger_info ''Preparing Carbon model inputs...'' lg)))))) \<and>
   (execute args = Inl e \<longrightarrow>
      run_carbon_model execute args lg =
        (Inl e, logger_error ''Error executing carbon model''
           (logger_info ''Running InVEST Carbon Storage and Sequestration model...'' lg)))"
  by (intro conjI impI)
    (simp_all only: prepare_missing_path prepare_file_not_found_only_from_library
      prepare_raster_error prepare_csv_error prepare_missing_columns prepare_returns
      run_carbon_model_error not_False_eq_True)

theorem prepare_carbon_inputs_failures_witness:
  "\<not> path_exists (env_ok\<lparr>path_exists := (\<lambda>p. p \<noteq> ''lulc.tif'')\<rparr>) ''lulc.tif'' \<and>
   prepare_carbon_inputs (env_ok\<lparr>path_exists := (\<lambda>p. p \<noteq> ''lulc.tif'')\<rparr>)
       ''lulc.tif'' ''pools.csv'' ''out'' [] =
     (Inl FileNotFoundError, [(INFO, ''Preparing Carbon model inputs...'')]) \<and>
   fst (prepare_carbon_inputs env_ok ''lulc.tif'' ''pools.csv'' ''out'' []) \<noteq>
     Inl FileNotFoundError \<and>
   prepare_carbon_inputs (env_ok\<lparr>read_band := (\<lambda>p. Inl (LibraryError ''RasterioIOError''))\<rparr>)
       ''lulc.tif'' ''pools.csv'' ''out'' [] =
     (Inl (LibraryError ''RasterioIOError''),
      [(INFO, ''Preparing Carbon model inputs...''), (ERROR, ''Error reading LULC raster'')]) \<and>
   prepare_carbon_inputs (env_ok\<lparr>read_csv := (\<lambda>p. Inl (LibraryError ''ParserError''))\<rparr>)
       ''lulc.tif'' ''pools.csv'' ''out'' [] =
     (Inl (LibraryError ''ParserError''),
      [(INFO, ''Preparing Carbon model inputs...''), (INFO, ''LULC raster loaded''),
       (ERROR, ''Error reading carbon pools CSV'')]) \<and>
   prepare_carbon_inputs (env_ok\<lparr>read_csv := (\<lambda>p. Inr [(''lucode'', [1, 2])])\<rparr>)
       ''lulc.tif'' ''pools.csv'' ''out'' [] =
     (Inl ValueError,
      [(INFO, ''Preparing Carbon model inputs...''), (INFO, ''LULC raster loaded''),
       (ERROR, ''Error reading carbon pools CSV'')]) \<and>
   prepare_carbon_inputs env_ok ''lulc.tif'' ''pools.csv'' ''out'' [] =
     (Inr \<lparr>lulc_cur_path = ''lulc.tif'', carbon_pools_path = ''pools.csv'',
           workspace_dir = ''out''\<rparr>,
      [(INFO, ''Preparing Carbon model inputs...''), (INFO, ''LULC raster loaded''),
       (WARNING, ''Carbon data missing for LULC classes''),
       (INFO, ''Carbon pools data loaded'')]) \<and>
   run_carbon_model (\<lambda>a. Inl (LibraryError ''InvestError''))
       \<lparr>lulc_cur_path = ''lulc.tif'', carbon_pools_path = ''pools.csv'',
        workspace_dir = ''out''\<rparr> [] =
     (Inl (LibraryError ''InvestError''),
      [(INFO, ''Running InVEST Carbon Storage and Sequestration model...''),
       (ERROR, ''Error executing carbon model'')])"
proof -
  let ?args = "\<lparr>lulc_cur_path = ''lulc.tif'', carbon_pools_path = ''pools.csv'',
        workspace_dir = ''out''\<rparr>"
  let ?e1 = "env_ok\<lparr>path_exists := (\<lambda>p. p \<noteq> ''lulc.tif'')\<rparr>"
  let ?e3 = "env_ok\<lparr>read_band := (\<lambda>p. Inl (LibraryError ''RasterioIOError''))\<rparr>"
  let ?e4 = "env_ok\<lparr>read_csv := (\<lambda>p. Inl (LibraryError ''ParserError''))\<rparr>"
  let ?e5 = "env_ok\<lparr>read_csv := (\<lambda>p. Inr [(''lucode'', [1, 2])])\<rparr>"
  have h1: "\<not> path_exists ?e1 ''lulc.tif''" by simp
  have c1: "prepare_carbon_inputs ?e1 ''lulc.tif'' ''pools.csv'' ''out'' [] =
     (Inl FileNotFoundError, [(INFO, ''Preparing Carbon model inputs...'')])"
    using h1
      prepare_carbon_inputs_failures [of ?e1 "''lulc.tif''" "''pools.csv''" "''out''" "[]"]
    by (simp add: logger_info_def)
  have c2: "fst (prepare_carbon_inputs env_ok ''lulc.tif'' ''pools.csv'' ''out'' []) \<noteq>
     Inl FileNotFoundError"
    using prepare_carbon_inputs_failures [of env_ok "''lulc.tif''" "''pools.csv''" "''out''" "[]"]
    by (simp add: env_ok_def)
  have c3: "prepare_carbon_inputs ?e3 ''lulc.tif'' ''pools.csv'' ''out'' [] =
     (Inl (LibraryError ''RasterioIOError''),
      [(INFO, ''Preparing Carbon model inputs...''), (ERROR, ''Error reading LULC raster'')])"
    using prepare_carbon_inputs_failures [of ?e3 "''lulc.tif''" "''pools.csv''" "''out''" "[]"
        "LibraryError ''RasterioIOError''"]
    by (simp add: env_ok_def logger_info_def logger_error_def)
  have c4: "prepare_carbon_inputs ?e4 ''lulc.tif'' ''pools.csv'' ''out'' [] =
     (Inl (LibraryError ''ParserError''),
      [(INFO, ''Preparing Carbon model inputs...''), (INFO, ''LULC raster loaded''),
       (ERROR, ''Error reading carbon pools CSV'')])"
    using prepare_carbon_inputs_failures [of ?e4 "''lulc.tif''" "''pools.csv''" "''out''" "[]"
        "LibraryError ''ParserError''" "[0, 1, 2, 7, 1]"]
    by (simp add: env_ok_def logger_info_def logger_error_def)
  have c5: "prepare_carbon_inputs ?e5 ''lulc.tif'' ''pools.csv'' ''out'' [] =
     (Inl ValueError,
      [(INFO, ''Preparing Carbon model inputs...''), (INFO, ''LULC raster loaded''),
       (ERROR, ''Error reading carbon pools CSV'')])"
    using prepare_carbon_inputs_failures [of ?e5 "''lulc.tif''" "''pools.csv''" "''out''" "[]"
        _ "[0, 1, 2, 7, 1]" "[(''lucode'', [1, 2])]"]
    by (simp add: env_ok_def required_cols_def logger_info_def logger_error_def)
  have c6: "prepare_carbon_inputs env_ok ''lulc.tif'' ''pools.csv'' ''out'' [] =
     (Inr ?args,
      [(INFO, ''Preparing Carbon model inputs...''), (INFO, ''LULC raster loaded''),
       (WARNING, ''Carbon data missing for LULC classes''),
       (INFO, ''Carbon pools data loaded'')])"
    using prepare_carbon_inputs_failures [of env_ok "''lulc.tif''" "''pools.csv''" "''out''" "[]"
        _ "[0, 1, 2, 7, 1]" pools_csv]
    by (simp add: env_ok_def pools_csv_def required_cols_def logger_info_def
        logger_warning_def)
  have c7: "run_carbon_model (\<lambda>a. Inl (LibraryError ''InvestError'')) ?args [] =
     (Inl (LibraryError ''InvestError''),
      [(INFO, ''Running InVEST Carbon Storage and Sequestration model...''),
       (ERROR, ''Error executing carbon model'')])"
    using prepare_carbon_inputs_failures [of _ _ _ _ "[]" "LibraryError ''InvestError''" _ _
        "\<lambda>a. Inl (LibraryError ''InvestError'')" ?args]
    by (simp add: logger_info_def logger_error_def)
  show ?thesis
    by (rule conjI [OF h1 conjI [OF c1 conjI [OF c2 conjI [OF c3 conjI [OF c4
          conjI [OF c5 conjI [OF c6 c7]]]]]]])
qed

text \<open>
  C6 as stated fails twice. With the LULC path missing, \<open>FileNotFoundError\<close> propagates
  and nothing was logged at error level. And \<open>FileNotFoundError\<close> is raised although both
  input paths exist when \<open>os.makedirs\<close> raises it, as it does for the output directory
  \<open>''\<close>, which does not exist and cannot be created.
\<close>

theorem prepare_carbon_inputs_unlogged_counterexample:
  "prepare_carbon_inputs (env_ok\<lparr>path_exists := (\<lambda>p. p \<noteq> ''lulc.tif'')\<rparr>)
       ''lulc.tif'' ''pools.csv'' ''out'' [] =
     (Inl FileNotFoundError, [(INFO, ''Preparing Carbon model inputs...'')]) \<and>
   path_exists (env_ok\<lparr>path_exists := (\<lambda>p. p \<noteq> []),
                  makedirs := (\<lambda>p. if p = [] then Some FileNotFoundError else None)\<rparr>)
       ''lulc.tif'' \<and>
   path_exists (env_ok\<lparr>path_exists := (\<lambda>p. p \<noteq> []),
                  makedirs := (\<lambda>p. if p = [] then Some FileNotFoundError else None)\<rparr>)
       ''pools.csv'' \<and>
   prepare_carbon_inputs
       (env_ok\<lparr>path_exists := (\<lambda>p. p \<noteq> []),
               makedirs := (\<lambda>p. if p = [] then Some FileNotFoundError else None)\<rparr>)
       ''lulc.tif'' ''pools.csv'' [] [] =
     (Inl FileNotFoundError, [(INFO, ''Preparing Carbon model inputs...'')])"
  by (simp add: prepare_carbon_inputs_def env_ok_def logger_info_def Let_def)

section \<open>Result summaries\<close>

text \<open>
  What the two summaries compute when they return: every statistic is taken over the
  strictly positive pixels, and the area is the pixel count times the pixel size over 10000.
\<close>

lemma summary_statistics_nonempty:
  assumes "valid \<noteq> []"
  shows "summary_statistics valid rs =
    Inr \<lparr>mean_carbon = np_mean valid, median_carbon = np_median valid,
         min_carbon = Fin (Min (set valid)), max_carbon = Fin (Max (set valid)),
         total_carbon = Fin (np_sum valid), pixel_count = length valid,
         pixel_size = fst rs * snd rs, area_ha = None\<rparr>"
  using assms
  by (simp add: summary_statistics_def np_min_def np_max_def exn_bind_def Let_def)

lemma summary_statistics_empty: "summary_statistics [] rs = Inl ValueError"
  by (simp add: summary_statistics_def np_min_def exn_bind_def Let_def)

lemma summarize_carbon_results_square:
  assumes "path_exists ev (os_path_join wdir ''total_carbon.tif'')"
    and "open_carbon ev (os_path_join wdir ''total_carbon.tif'') = Inr src"
    and "fst (res src) = snd (res src)"
    and "filter (\<lambda>v. 0 < v) (pixels src) \<noteq> []"
  shows "fst (summarize_carbon_results ev wdir lg) =
    Inr \<lparr>mean_carbon = np_mean (filter (\<lambda>v. 0 < v) (pixels src)),
         median_carbon = np_median (filter (\<lambda>v. 0 < v) (pixels src)),
         min_carbon = Fin (Min (set (filter (\<lambda>v. 0 < v) (pixels src)))),
         max_carbon = Fin (Max (set (filter (\<lambda>v. 0 < v) (pixels src)))),
         total_carbon = Fin (np_sum (filter (\<lambda>v. 0 < v) (pixels src))),
         pixel_count = length (filter (\<lambda>v. 0 < v) (pixels src)),
         pixel_size = fst (res src) * snd (res src),
         area_ha = Some (real (length (filter (\<lambda>v. 0 < v) (pixels src))) *
                           (fst (res src) * snd (res src)) / 10000)\<rparr>"
  using assms(1-3)
  by (simp add: summarize_carbon_results_def summary_statistics_nonempty [OF assms(4)]
      exn_bind_def format_2f_def Let_def)

lemma summarize_carbon_results_not_square:
  assumes "path_exists ev (os_path_join wdir ''total_carbon.tif'')"
    and "open_carbon ev (os_path_join wdir ''total_carbon.tif'') = Inr src"
    and "fst (res src) \<noteq> snd (res src)"
  shows "fst (summarize_carbon_results ev wdir lg) = Inl ValueError"
proof (cases "filter (\<lambda>v. 0 < v) (pixels src) = []")
  case True
  then show ?thesis
    using assms
    by (simp add: summarize_carbon_results_def summary_statistics_empty exn_bind_def Let_def)
next
  case False
  show ?thesis
    using assms
    by (simp add: summarize_carbon_results_def summary_statistics_nonempty [OF False]
        exn_bind_def format_2f_def Let_def)
qed

lemma extract_carbon_for_region_summary:
  assumes "open_carbon ev path = Inr src"
    and "mask_crop ev src region = Inr masked"
    and "filter (\<lambda>v. 0 < v) masked \<noteq> []"
  shows "fst (extract_carbon_for_region ev path region lg) =
    Inr (filter (\<lambda>v. 0 < v) masked,
      \<lparr>mean_carbon = np_mean (filter (\<lambda>v. 0 < v) masked),
       median_carbon = np_median (filter (\<lambda>v. 0 < v) masked),
       min_carbon = Fin (Min (set (filter (\<lambda>v. 0 < v) masked))),
       max_carbon = Fin (Max (set (filter (\<lambda>v. 0 < v) masked))),
       total_carbon = Fin (np_sum (filter (\<lambda>v. 0 < v) masked)),
       pixel_count = length (filter (\<lambda>v. 0 < v) masked),
       pixel_size = fst (res src) * snd (res src),
       area_ha = Some (real (length (filter (\<lambda>v. 0 < v) masked)) *
                         (fst (res src) * snd (res src)) / 10000)\<rparr>)"
  using assms(1-2)
  by (simp add: extract_carbon_for_region_def summary_statistics_nonempty [OF assms(3)]
      exn_bind_def format_2f_def Let_def)

text \<open>
  C8. The claim has \<open>summarize_carbon_results\<close> return its summary without \<open>area_ha\<close> when
  the pixels are not square. The code sets no \<open>area_ha\<close> then, but its last statement
  formats \<open>summary.get('area_ha', 'N/A')\<close> with \<open>:.2f\<close>, which raises \<open>ValueError\<close> on the
  string: on a raster of resolution 30 by 20 with positive pixels no summary is returned.
\<close>

theorem summarize_carbon_results_not_square_raises:
  "summarize_carbon_results
     (env_ok\<lparr>open_carbon := (\<lambda>p. Inr \<lparr>pixels = [1, 3, 0, - 1], res = (30, 20)\<rparr>)\<rparr>)
     ''workspace'' [] =
   (Inl ValueError, [(INFO, ''Summarizing carbon results...'')])"
  by (simp add: summarize_carbon_results_def env_ok_def os_path_join_def exn_bind_def
      summary_statistics_def np_min_def np_max_def format_2f_def logger_info_def Let_def)

end
